theory Spec2Isabelle
  imports Main "HOL-Library.DAList"
begin

section \<open>Python values, classes and dictionaries\<close>

text \<open>
  The visualizer of \<^verbatim>\<open>model_report_visualizer.py\<close> holds a nested dictionary
  \<^verbatim>\<open>module_fqn -> (feature_name -> value)\<close>. The only thing the code ever asks of a
  value is its class (\<^verbatim>\<open>type(v) == torch.Tensor\<close>), so a value is a class together
  with an uninterpreted payload \<open>'d\<close>.

  A class is its qualified name and its direct base classes. Two class objects are the
  same object exactly when they are equal here, which is what \<^verbatim>\<open>==\<close> on classes
  tests.
\<close>

datatype pyclass = PyClass (cls_name: string) (cls_bases: "pyclass list")

fun issubclass :: "pyclass \<Rightarrow> pyclass \<Rightarrow> bool" where
  "issubclass (PyClass n bs) d = (PyClass n bs = d \<or> list_ex (\<lambda>b. issubclass b d) bs)"

datatype 'd pyval = PyVal (type_of: pyclass) (data_of: 'd)

definition isinstance :: "'d pyval \<Rightarrow> pyclass \<Rightarrow> bool" where
  "isinstance v c = issubclass (type_of v) c"

definition py_object :: pyclass where
  "py_object = PyClass ''object'' []"

text \<open>
  Modelled from the spec: the class \<^verbatim>\<open>torch.Tensor\<close>, which the source imports and
  compares against; its declaration is not part of the file. Only its identity matters
  to the code.
\<close>

definition torch_Tensor :: pyclass where
  "torch_Tensor = PyClass ''torch.Tensor'' [PyClass ''torch._C._TensorBase'' [py_object]]"

text \<open>
  Modelled from the spec: \<^verbatim>\<open>torch.nn.Parameter\<close>, a proper subclass of
  \<^verbatim>\<open>torch.Tensor\<close> declared elsewhere in the library.
\<close>

definition torch_nn_Parameter :: pyclass where
  "torch_nn_Parameter = PyClass ''torch.nn.parameter.Parameter'' [torch_Tensor]"

definition py_int :: pyclass where
  "py_int = PyClass ''int'' [py_object]"

text \<open>
  A Python \<^verbatim>\<open>dict\<close> (and an \<^verbatim>\<open>OrderedDict\<close>) is an association list in insertion
  order in which no key occurs twice: the type \<open>('k, 'v) alist\<close>. Iterating a dictionary
  yields its keys in order; subscripting raises \<^verbatim>\<open>KeyError\<close> for a missing key.
\<close>

datatype py_error = KeyError string

definition dict_keys :: "('k, 'v) alist \<Rightarrow> 'k list" where
  "dict_keys d = map fst (DAList.impl_of d)"

definition dict_getitem :: "(string, 'v) alist \<Rightarrow> string \<Rightarrow> py_error + 'v" where
  "dict_getitem d k = (case DAList.lookup d k of None \<Rightarrow> Inl (KeyError k) | Some v \<Rightarrow> Inr v)"

type_synonym 'd feature_dict = "(string, 'd pyval) alist"

type_synonym 'd report = "(string, 'd feature_dict) alist"

section \<open>The class \<^verbatim>\<open>ModelReportVisualizer\<close>\<close>

record 'd ModelReportVisualizer =
  generated_reports :: "'d report"

definition init :: "'d report \<Rightarrow> 'd ModelReportVisualizer" where
  "init reports = \<lparr>generated_reports = reports\<rparr>"

text \<open>
  A method returns either the error it raised or its return value together with the
  instance as the call left it.
\<close>

definition get_all_unique_module_fqns ::
  "'d ModelReportVisualizer \<Rightarrow> py_error + (string set \<times> 'd ModelReportVisualizer)" where
  "get_all_unique_module_fqns slf = Inr (set (dict_keys (generated_reports slf)), slf)"

text \<open>
  The local state of \<^verbatim>\<open>get_all_unique_feature_names\<close> while its loops run: the
  instance \<^verbatim>\<open>self\<close> and the set under construction.
\<close>

record 'd frame =
  self :: "'d ModelReportVisualizer"
  unique_feature_names :: "string set"

text \<open>
  The condition of line 99,
  \<^verbatim>\<open>not plottable_features_only or type(feature_dict[feature_name]) == torch.Tensor\<close>:
  \<^verbatim>\<open>or\<close> does not evaluate the subscript when its left operand is true.
\<close>

definition wanted :: "bool \<Rightarrow> 'd feature_dict \<Rightarrow> string \<Rightarrow> py_error + bool" where
  "wanted plottable_features_only feature_dict feature_name =
     (if \<not> plottable_features_only then Inr True
      else case dict_getitem feature_dict feature_name of
             Inl e \<Rightarrow> Inl e
           | Inr v \<Rightarrow> Inr (type_of v = torch_Tensor))"

fun feature_loop ::
  "bool \<Rightarrow> 'd feature_dict \<Rightarrow> string list \<Rightarrow> 'd frame \<Rightarrow> py_error + 'd frame" where
  "feature_loop plottable_features_only feature_dict [] fr = Inr fr"
| "feature_loop plottable_features_only feature_dict (feature_name # rest) fr =
     (case wanted plottable_features_only feature_dict feature_name of
        Inl e \<Rightarrow> Inl e
      | Inr b \<Rightarrow>
          feature_loop plottable_features_only feature_dict rest
            (if b then fr\<lparr>unique_feature_names := insert feature_name (unique_feature_names fr)\<rparr>
             else fr))"

fun module_loop :: "bool \<Rightarrow> string list \<Rightarrow> 'd frame \<Rightarrow> py_error + 'd frame" where
  "module_loop plottable_features_only [] fr = Inr fr"
| "module_loop plottable_features_only (module_fqn # rest) fr =
     (case dict_getitem (generated_reports (self fr)) module_fqn of
        Inl e \<Rightarrow> Inl e
      | Inr feature_dict \<Rightarrow>
          (case feature_loop plottable_features_only feature_dict (dict_keys feature_dict) fr of
             Inl e \<Rightarrow> Inl e
           | Inr fr' \<Rightarrow> module_loop plottable_features_only rest fr'))"

definition get_all_unique_feature_names ::
  "'d ModelReportVisualizer \<Rightarrow> bool \<Rightarrow> py_error + (string set \<times> 'd ModelReportVisualizer)" where
  "get_all_unique_feature_names slf plottable_features_only =
     (case module_loop plottable_features_only (dict_keys (generated_reports slf))
             \<lparr>self = slf, unique_feature_names = {}\<rparr> of
        Inl e \<Rightarrow> Inl e
      | Inr fr \<Rightarrow> Inr (unique_feature_names fr, self fr))"

text \<open>
  A call site may leave the argument out; the parameter then takes its default,
  \<^verbatim>\<open>plottable_features_only: bool = True\<close>.
\<close>

definition call_get_all_unique_feature_names ::
  "'d ModelReportVisualizer \<Rightarrow> bool option \<Rightarrow> py_error + (string set \<times> 'd ModelReportVisualizer)" where
  "call_get_all_unique_feature_names slf arg =
     get_all_unique_feature_names slf (case arg of None \<Rightarrow> True | Some b \<Rightarrow> b)"

subsection \<open>The six generators\<close>

text \<open>
  Each of the six generator methods has the body \<^verbatim>\<open>pass\<close>. A Python function whose
  body ends without \<^verbatim>\<open>return\<close> returns \<^verbatim>\<open>None\<close>: the result type is the
  annotated one under \<open>option\<close>, with \<open>None\<close> for Python's \<^verbatim>\<open>None\<close>. The three
  visualization methods carry no annotation and document no result.
\<close>

type_synonym callable = "unit \<Rightarrow> unit"

definition generate_table_info ::
  "'d ModelReportVisualizer \<Rightarrow> string \<Rightarrow> string \<Rightarrow>
     py_error + ((string \<times> 'd pyval list list) option \<times> 'd ModelReportVisualizer)" where
  "generate_table_info slf feature module_fqn_prefix_filter = Inr (None, slf)"

definition generate_table_visualization ::
  "'d ModelReportVisualizer \<Rightarrow> string \<Rightarrow> string \<Rightarrow>
     py_error + (unit option \<times> 'd ModelReportVisualizer)" where
  "generate_table_visualization slf feature module_fqn_prefix_filter = Inr (None, slf)"

definition generate_plot_info ::
  "'d ModelReportVisualizer \<Rightarrow> string \<Rightarrow> string \<Rightarrow>
     py_error + ((callable \<times> 'd pyval list list) option \<times> 'd ModelReportVisualizer)" where
  "generate_plot_info slf feature module_fqn_prefix_filter = Inr (None, slf)"

definition generate_plot_visualization ::
  "'d ModelReportVisualizer \<Rightarrow> string \<Rightarrow> string \<Rightarrow>
     py_error + (unit option \<times> 'd ModelReportVisualizer)" where
  "generate_plot_visualization slf feature module_fqn_prefix_filter = Inr (None, slf)"

definition generate_histogram_info ::
  "'d ModelReportVisualizer \<Rightarrow> string \<Rightarrow> string \<Rightarrow>
     py_error + ((callable \<times> 'd pyval list list) option \<times> 'd ModelReportVisualizer)" where
  "generate_histogram_info slf feature module_fqn_prefix_filter = Inr (None, slf)"

definition generate_histogram_visualization ::
  "'d ModelReportVisualizer \<Rightarrow> string \<Rightarrow> string \<Rightarrow>
     py_error + (unit option \<times> 'd ModelReportVisualizer)" where
  "generate_histogram_visualization slf feature module_fqn_prefix_filter = Inr (None, slf)"

section \<open>Auxiliary notions for the proofs\<close>

text \<open>
  What one pass of the inner loop test decides for a key that is present, and what the
  outer loop has collected after the layers \<open>ms\<close>.
\<close>

definition chosen :: "bool \<Rightarrow> 'd feature_dict \<Rightarrow> string \<Rightarrow> bool" where
  "chosen p fd k = (\<not> p \<or> (\<exists>v. DAList.lookup fd k = Some v \<and> type_of v = torch_Tensor))"

definition gathered :: "bool \<Rightarrow> 'd report \<Rightarrow> string set \<Rightarrow> string set" where
  "gathered p r ms =
     {f. \<exists>m fd. m \<in> ms \<and> DAList.lookup r m = Some fd \<and> f \<in> set (dict_keys fd) \<and> chosen p fd f}"

subsection \<open>The plottable feature names, in the words of the specification\<close>

text \<open>
  The specification calls a value plottable when it is an array-like numeric object, a
  tensor: an instance of \<^verbatim>\<open>torch.Tensor\<close>, whatever its exact class. The names the
  specification promises are those of the entries of any layer that hold such a value.
\<close>

definition array_like :: "'d pyval \<Rightarrow> bool" where
  "array_like v = isinstance v torch_Tensor"

definition spec_plottable_feature_names :: "'d report \<Rightarrow> string set" where
  "spec_plottable_feature_names reports =
     set (concat (map (\<lambda>(module_fqn, feature_dict).
                         map fst (filter (\<lambda>(feature_name, v). array_like v)
                                    (DAList.impl_of feature_dict)))
                      (DAList.impl_of reports)))"

subsection \<open>A sample report\<close>

text \<open>
  Two layers. The first holds a tensor and an integer count; the second holds the same
  statistic \<^verbatim>\<open>max\<close> and its \<^verbatim>\<open>weight\<close> as parameters, and one more tensor.
\<close>

definition layer1 :: "nat feature_dict" where
  "layer1 = DAList.update ''outlier_count'' (PyVal py_int 3)
             (DAList.update ''max'' (PyVal torch_Tensor 1) DAList.empty)"

definition layer2 :: "nat feature_dict" where
  "layer2 = DAList.update ''per_channel_max'' (PyVal torch_Tensor 6)
             (DAList.update ''weight'' (PyVal torch_nn_Parameter 5)
               (DAList.update ''max'' (PyVal torch_nn_Parameter 4) DAList.empty))"

definition example_report :: "nat report" where
  "example_report = DAList.update ''block2.conv'' layer2
                      (DAList.update ''block1.linear'' layer1 DAList.empty)"

section \<open>Dictionaries\<close>

lemma dict_keys_dom: "set (dict_keys d) = dom (DAList.lookup d)"
  by (simp add: dict_keys_def lookup.rep_eq dom_map_of_conv_image_fst)

lemma dict_keys_distinct: "distinct (dict_keys d)"
  by (simp add: dict_keys_def)

lemma dict_getitem_key:
  assumes "k \<in> set (dict_keys d)"
  shows "\<exists>v. DAList.lookup d k = Some v \<and> dict_getitem d k = Inr v"
  using assms by (auto simp: dict_keys_dom dict_getitem_def)

lemma dict_getitem_missing:
  assumes "k \<notin> set (dict_keys d)"
  shows "dict_getitem d k = Inl (KeyError k)"
  using assms by (auto simp: dict_keys_dom dict_getitem_def split: option.splits)

section \<open>The loops of \<^verbatim>\<open>get_all_unique_feature_names\<close>\<close>

lemma wanted_key:
  assumes "k \<in> set (dict_keys fd)"
  shows "wanted p fd k = Inr (chosen p fd k)"
proof -
  obtain v where "DAList.lookup fd k = Some v" "dict_getitem fd k = Inr v"
    using dict_getitem_key [OF assms] by blast
  then show ?thesis by (simp add: wanted_def chosen_def)
qed

lemma feature_loop_result:
  assumes "set ks \<subseteq> set (dict_keys fd)"
  shows "feature_loop p fd ks fr =
           Inr (fr\<lparr>unique_feature_names := unique_feature_names fr \<union> {k \<in> set ks. chosen p fd k}\<rparr>)"
  using assms
proof (induction ks arbitrary: fr)
  case Nil
  show ?case by simp
next
  case (Cons k ks)
  have w: "wanted p fd k = Inr (chosen p fd k)"
    using Cons.prems by (simp add: wanted_key)
  have sub: "set ks \<subseteq> set (dict_keys fd)"
    using Cons.prems by simp
  have sets: "(if chosen p fd k then insert k (unique_feature_names fr) else unique_feature_names fr)
                \<union> {x \<in> set ks. chosen p fd x}
              = unique_feature_names fr \<union> {x \<in> set (k # ks). chosen p fd x}"
    by auto
  have "feature_loop p fd (k # ks) fr =
          Inr (fr\<lparr>unique_feature_names :=
                 (if chosen p fd k then insert k (unique_feature_names fr) else unique_feature_names fr)
                   \<union> {x \<in> set ks. chosen p fd x}\<rparr>)"
    by (simp add: w Cons.IH [OF sub])
  then show ?case
    by (simp only: sets)
qed

lemma gathered_insert:
  assumes "DAList.lookup r m = Some fd"
  shows "gathered p r (insert m ms) = {k \<in> set (dict_keys fd). chosen p fd k} \<union> gathered p r ms"
  using assms by (auto simp: gathered_def)

lemma module_loop_result:
  assumes "set ms \<subseteq> set (dict_keys (generated_reports (self fr)))"
  shows "module_loop p ms fr =
           Inr (fr\<lparr>unique_feature_names :=
                      unique_feature_names fr \<union> gathered p (generated_reports (self fr)) (set ms)\<rparr>)"
  using assms
proof (induction ms arbitrary: fr)
  case Nil
  show ?case by (simp add: gathered_def)
next
  case (Cons m ms)
  let ?r = "generated_reports (self fr)"
  obtain fd where fd: "DAList.lookup ?r m = Some fd" "dict_getitem ?r m = Inr fd"
    using Cons.prems dict_getitem_key [of m ?r] by auto
  let ?fr' = "fr\<lparr>unique_feature_names :=
                   unique_feature_names fr \<union> {k \<in> set (dict_keys fd). chosen p fd k}\<rparr>"
  have inner: "feature_loop p fd (dict_keys fd) fr = Inr ?fr'"
    by (simp add: feature_loop_result)
  have sub: "set ms \<subseteq> set (dict_keys (generated_reports (self ?fr')))"
    using Cons.prems by simp
  show ?case
    by (simp add: fd inner Cons.IH [OF sub] gathered_insert [OF fd(1)] Un_assoc)
qed

lemma get_all_unique_feature_names_result:
  "get_all_unique_feature_names slf p =
     Inr (gathered p (generated_reports slf) (set (dict_keys (generated_reports slf))), slf)"
  by (simp add: get_all_unique_feature_names_def module_loop_result)

text \<open>
  The error branches of the model are live: a loop handed a key that the dictionary does
  not hold raises \<^verbatim>\<open>KeyError\<close>. The method never does so, because it only subscripts
  with keys it got from iterating the same dictionary.
\<close>

lemma module_loop_missing_key:
  assumes "m \<notin> set (dict_keys (generated_reports (self fr)))"
  shows "module_loop p (m # ms) fr = Inl (KeyError m)"
  using assms by (simp add: dict_getitem_missing)

lemma feature_loop_missing_key:
  assumes "k \<notin> set (dict_keys fd)"
  shows "feature_loop True fd (k # ks) fr = Inl (KeyError k)"
  using assms by (simp add: wanted_def dict_getitem_missing)

text \<open>Whatever keys the loops are run on, they never assign to \<^verbatim>\<open>self\<close>.\<close>

lemma feature_loop_self:
  assumes "feature_loop p fd ks fr = Inr fr'"
  shows "self fr' = self fr"
  using assms
proof (induction ks arbitrary: fr)
  case Nil
  then show ?case by simp
next
  case (Cons k ks)
  then obtain b where b: "wanted p fd k = Inr b"
    by (cases "wanted p fd k") auto
  let ?fr1 = "if b then fr\<lparr>unique_feature_names := insert k (unique_feature_names fr)\<rparr> else fr"
  have "feature_loop p fd ks ?fr1 = Inr fr'"
    using Cons.prems b by simp
  then have "self fr' = self ?fr1"
    by (rule Cons.IH)
  then show ?case by simp
qed

lemma module_loop_self:
  assumes "module_loop p ms fr = Inr fr'"
  shows "self fr' = self fr"
  using assms
proof (induction ms arbitrary: fr)
  case Nil
  then show ?case by simp
next
  case (Cons m ms)
  then obtain fd where fd: "dict_getitem (generated_reports (self fr)) m = Inr fd"
    by (cases "dict_getitem (generated_reports (self fr)) m") auto
  then obtain fr1 where fr1: "feature_loop p fd (dict_keys fd) fr = Inr fr1"
    using Cons.prems by (cases "feature_loop p fd (dict_keys fd) fr") auto
  have "module_loop p ms fr1 = Inr fr'"
    using Cons.prems fd fr1 by simp
  then have "self fr' = self fr1"
    by (rule Cons.IH)
  then show ?case
    by (simp add: feature_loop_self [OF fr1])
qed

lemma get_all_unique_feature_names_self:
  assumes "get_all_unique_feature_names slf p = Inr (S, slf')"
  shows "slf' = slf"
proof -
  let ?fr = "\<lparr>self = slf, unique_feature_names = {}\<rparr>"
  obtain fr' where fr': "module_loop p (dict_keys (generated_reports slf)) ?fr = Inr fr'"
    using assms unfolding get_all_unique_feature_names_def
    by (cases "module_loop p (dict_keys (generated_reports slf)) ?fr") auto
  have "slf' = self fr'"
    using assms fr' by (simp add: get_all_unique_feature_names_def)
  then show ?thesis
    using module_loop_self [OF fr'] by simp
qed

lemmas example_defs =
  example_report_def layer1_def layer2_def init_def
  torch_Tensor_def torch_nn_Parameter_def py_int_def py_object_def

subsection \<open>The sample report, evaluated\<close>

lemma example_report_lookup:
  "DAList.lookup example_report = [''block1.linear'' \<mapsto> layer1, ''block2.conv'' \<mapsto> layer2]"
  by (simp add: example_report_def lookup_update fun_eq_iff)

lemma layer1_lookup:
  "DAList.lookup layer1 = [''max'' \<mapsto> PyVal torch_Tensor 1, ''outlier_count'' \<mapsto> PyVal py_int 3]"
  by (simp add: layer1_def lookup_update fun_eq_iff)

lemma layer2_lookup:
  "DAList.lookup layer2 = [''max'' \<mapsto> PyVal torch_nn_Parameter 4,
     ''weight'' \<mapsto> PyVal torch_nn_Parameter 5, ''per_channel_max'' \<mapsto> PyVal torch_Tensor 6]"
  by (simp add: layer2_def lookup_update fun_eq_iff)

lemma example_report_keys: "dict_keys example_report = [''block1.linear'', ''block2.conv'']"
  by (simp add: example_report_def dict_keys_def DAList.update.rep_eq DAList.empty.rep_eq)

lemma parameter_is_proper_subclass:
  "issubclass torch_nn_Parameter torch_Tensor \<and> torch_nn_Parameter \<noteq> torch_Tensor"
  by (simp add: torch_Tensor_def torch_nn_Parameter_def py_object_def)

lemma issubclass_refl: "issubclass c c"
  by (cases c) simp

lemma lookup_iff_impl_of: "DAList.lookup d k = Some v \<longleftrightarrow> (k, v) \<in> set (DAList.impl_of d)"
  by (simp add: lookup.rep_eq)

lemma spec_plottable_feature_names_iff:
  "f \<in> spec_plottable_feature_names r \<longleftrightarrow>
     (\<exists>m fd v. DAList.lookup r m = Some fd \<and> DAList.lookup fd f = Some v \<and> array_like v)"
  unfolding spec_plottable_feature_names_def lookup_iff_impl_of
  by (auto simp: image_iff)

lemma example_spec_plottable:
  "spec_plottable_feature_names example_report = {''max'', ''weight'', ''per_channel_max''}"
  by (simp add: spec_plottable_feature_names_def array_like_def isinstance_def example_defs
      DAList.update.rep_eq DAList.empty.rep_eq insert_commute)

lemma example_plottable:
  "get_all_unique_feature_names (init example_report) True =
     Inr ({''max'', ''per_channel_max''}, init example_report)"
  by (simp add: get_all_unique_feature_names_def dict_keys_def dict_getitem_def wanted_def
      lookup.rep_eq example_defs DAList.update.rep_eq DAList.empty.rep_eq insert_commute)

text \<open>Membership in the set the loops collect when only plottable features are wanted.\<close>

lemma plottable_iff:
  "f \<in> gathered True r (set (dict_keys r)) \<longleftrightarrow>
     (\<exists>m fd v. DAList.lookup r m = Some fd \<and> DAList.lookup fd f = Some v \<and> type_of v = torch_Tensor)"
  by (auto simp: gathered_def chosen_def dict_keys_dom)

text \<open>
  What the code returns is always among the names the specification promises: a value of
  type \<^verbatim>\<open>torch.Tensor\<close> is an instance of it.
\<close>

lemma plottable_names_are_array_like:
  "gathered True r (set (dict_keys r)) \<subseteq> spec_plottable_feature_names r"
proof
  fix f
  assume "f \<in> gathered True r (set (dict_keys r))"
  then obtain m fd v where h: "DAList.lookup r m = Some fd" "DAList.lookup fd f = Some v"
      "type_of v = torch_Tensor"
    unfolding plottable_iff by blast
  have "array_like v"
    by (simp add: array_like_def isinstance_def h(3) issubclass_refl)
  with h show "f \<in> spec_plottable_feature_names r"
    unfolding spec_plottable_feature_names_iff by blast
qed

section \<open>The accessors\<close>

text \<open>
  C1, as amended. For every report, \<^verbatim>\<open>get_all_unique_feature_names\<close> called with
  \<^verbatim>\<open>plottable_features_only=True\<close> returns exactly the set of the feature names that,
  in at least one layer's feature dictionary, carry a value whose type is
  \<^verbatim>\<open>torch.Tensor\<close> itself; a name that carries such a value in no layer is not in the
  set, also when its values are instances of a subclass of \<^verbatim>\<open>torch.Tensor\<close>.
\<close>

theorem plottable_feature_names:
  "get_all_unique_feature_names slf True =
     Inr ({f. \<exists>m fd v. DAList.lookup (generated_reports slf) m = Some fd \<and>
                        DAList.lookup fd f = Some v \<and> type_of v = torch_Tensor}, slf)"
proof -
  let ?r = "generated_reports slf"
  have "gathered True ?r (set (dict_keys ?r)) =
          {f. \<exists>m fd v. DAList.lookup ?r m = Some fd \<and> DAList.lookup fd f = Some v \<and>
                         type_of v = torch_Tensor}"
    by (auto simp: gathered_def chosen_def dict_keys_dom)
  then show ?thesis
    by (simp add: get_all_unique_feature_names_result)
qed

theorem plottable_feature_names_witness:
  "get_all_unique_feature_names (init example_report) True =
     Inr ({''max'', ''per_channel_max''}, init example_report)"
proof -
  have "{f. \<exists>m fd v. DAList.lookup example_report m = Some fd \<and>
                      DAList.lookup fd f = Some v \<and> type_of v = torch_Tensor}
          = {''max'', ''per_channel_max''}" (is "?L = ?R")
  proof
    show "?L \<subseteq> ?R"
      by (auto simp: example_defs lookup_update split: if_splits)
    have "''max'' \<in> ?L"
      by (rule CollectI, rule exI [of _ "''block1.linear''"], rule exI [of _ layer1],
          rule exI [of _ "PyVal torch_Tensor 1"]) (simp add: example_report_def layer1_def)
    moreover have "''per_channel_max'' \<in> ?L"
      by (rule CollectI, rule exI [of _ "''block2.conv''"], rule exI [of _ layer2],
          rule exI [of _ "PyVal torch_Tensor 6"]) (simp add: example_report_def layer2_def)
    ultimately show "?R \<subseteq> ?L"
      by simp
  qed
  then show ?thesis
    using plottable_feature_names [of "init example_report"] by (simp add: init_def)
qed

text \<open>
  C1 as the specification words it, with every array-like value counting, fails on the
  sample report: \<^verbatim>\<open>weight\<close> is held as a \<^verbatim>\<open>torch.nn.Parameter\<close>, an instance of
  \<^verbatim>\<open>torch.Tensor\<close>, and is not returned.
\<close>

theorem plottable_feature_names_counterexample:
  "''weight'' \<in> spec_plottable_feature_names example_report \<and>
   get_all_unique_feature_names (init example_report) True =
     Inr ({''max'', ''per_channel_max''}, init example_report) \<and>
   get_all_unique_feature_names (init example_report) True \<noteq>
     Inr (spec_plottable_feature_names example_report, init example_report)"
proof -
  have a: "''weight'' \<in> spec_plottable_feature_names example_report"
    by (simp add: example_spec_plottable)
  have b: "''weight'' \<notin> {''max'', ''per_channel_max''}"
    by simp
  have c: "{''max'', ''per_channel_max''} \<noteq> spec_plottable_feature_names example_report"
    using a b by metis
  show ?thesis
    using a c by (simp add: example_plottable)
qed

text \<open>
  C2. For every report, \<^verbatim>\<open>get_all_unique_feature_names\<close> called with
  \<^verbatim>\<open>plottable_features_only=False\<close> returns exactly the union, over all layers, of the
  feature names of the layer's feature dictionary, whatever the types of the values.
\<close>

theorem all_feature_names:
  "get_all_unique_feature_names slf False =
     Inr (\<Union> ((\<lambda>fd. dom (DAList.lookup fd)) ` ran (DAList.lookup (generated_reports slf))), slf)"
proof -
  let ?r = "generated_reports slf"
  have "gathered False ?r (set (dict_keys ?r)) =
          \<Union> ((\<lambda>fd. dom (DAList.lookup fd)) ` ran (DAList.lookup ?r))"
    by (auto simp: gathered_def chosen_def dict_keys_dom ran_def)
  then show ?thesis
    by (simp add: get_all_unique_feature_names_result)
qed

theorem all_feature_names_witness:
  "get_all_unique_feature_names (init example_report) False =
     Inr ({''max'', ''outlier_count'', ''weight'', ''per_channel_max''}, init example_report)"
proof -
  have r: "ran (DAList.lookup example_report) = {layer1, layer2}"
    by (simp add: example_report_lookup insert_commute)
  have d1: "dom (DAList.lookup layer1) = {''max'', ''outlier_count''}"
    by (simp add: layer1_lookup insert_commute)
  have d2: "dom (DAList.lookup layer2) = {''max'', ''weight'', ''per_channel_max''}"
    by (simp add: layer2_lookup insert_commute)
  have "\<Union> ((\<lambda>fd. dom (DAList.lookup fd)) ` ran (DAList.lookup example_report))
          = {''max'', ''outlier_count'', ''weight'', ''per_channel_max''}"
    unfolding r by (simp add: d1 d2 insert_commute)
  then show ?thesis
    using all_feature_names [of "init example_report"] by (simp add: init_def)
qed

text \<open>
  C3. For every report the instance was initialized with,
  \<^verbatim>\<open>get_all_unique_module_fqns\<close> returns exactly the set of the layer identifiers,
  the top-level keys of the nested dictionary; each of them counts once, so the set has
  as many elements as the dictionary has keys.
\<close>

theorem module_fqns_are_the_keys:
  "\<exists>S. get_all_unique_module_fqns (init reports) = Inr (S, init reports) \<and>
        S = dom (DAList.lookup reports) \<and>
        S = set (dict_keys reports) \<and>
        card S = length (dict_keys reports)"
  by (simp add: get_all_unique_module_fqns_def init_def dict_keys_dom [symmetric]
      distinct_card [OF dict_keys_distinct])

theorem module_fqns_are_the_keys_witness:
  "get_all_unique_module_fqns (init example_report) =
     Inr ({''block1.linear'', ''block2.conv''}, init example_report) \<and>
   card {''block1.linear'', ''block2.conv''} = length (dict_keys example_report)"
proof -
  obtain S where a: "get_all_unique_module_fqns (init example_report) = Inr (S, init example_report)"
    and b: "S = set (dict_keys example_report)"
    and c: "card S = length (dict_keys example_report)"
    using module_fqns_are_the_keys [of example_report] by blast
  have "S = {''block1.linear'', ''block2.conv''}"
    by (simp add: b example_report_keys)
  with a c show ?thesis
    by simp
qed

text \<open>
  C4. Whatever the arguments \<^verbatim>\<open>feature\<close> and \<^verbatim>\<open>module_fqn_prefix_filter\<close> and
  whatever the stored report, each of the six generator methods does nothing: it raises
  no error, leaves the instance as it is and returns \<^verbatim>\<open>None\<close>, not the pair its
  documentation describes.
\<close>

theorem generators_return_None:
  "generate_table_info slf feature module_fqn_prefix_filter = Inr (None, slf) \<and>
   generate_table_visualization slf feature module_fqn_prefix_filter = Inr (None, slf) \<and>
   generate_plot_info slf feature module_fqn_prefix_filter = Inr (None, slf) \<and>
   generate_plot_visualization slf feature module_fqn_prefix_filter = Inr (None, slf) \<and>
   generate_histogram_info slf feature module_fqn_prefix_filter = Inr (None, slf) \<and>
   generate_histogram_visualization slf feature module_fqn_prefix_filter = Inr (None, slf)"
  by (simp add: generate_table_info_def generate_table_visualization_def
      generate_plot_info_def generate_plot_visualization_def
      generate_histogram_info_def generate_histogram_visualization_def)

text \<open>
  C5. For every report of the nested-dictionary shape and either boolean argument, both
  accessors return normally: no call ends in an error.
\<close>

theorem accessors_never_raise:
  "(\<exists>S slf'. get_all_unique_module_fqns slf = Inr (S, slf')) \<and>
   (\<exists>S slf'. get_all_unique_feature_names slf plottable_features_only = Inr (S, slf'))"
  by (simp add: get_all_unique_module_fqns_def get_all_unique_feature_names_result)

theorem accessors_never_raise_witness:
  "(\<exists>S slf'. get_all_unique_module_fqns (init example_report) = Inr (S, slf')) \<and>
   (\<exists>S slf'. get_all_unique_feature_names (init example_report) True = Inr (S, slf')) \<and>
   (\<exists>S slf'. get_all_unique_feature_names (init example_report) False = Inr (S, slf'))"
  by (rule conjI [OF conjunct1 [OF accessors_never_raise]
        conjI [OF conjunct2 [OF accessors_never_raise] conjunct2 [OF accessors_never_raise]]])

text \<open>
  C6. Initialized with the empty report, \<^verbatim>\<open>get_all_unique_module_fqns\<close> returns the
  empty set.
\<close>

theorem module_fqns_of_empty_report:
  "get_all_unique_module_fqns (init DAList.empty) = Inr ({}, init DAList.empty)"
  by (simp add: get_all_unique_module_fqns_def init_def dict_keys_def DAList.empty.rep_eq)

text \<open>
  C7. The plottability test is equality of the value's type with \<^verbatim>\<open>torch.Tensor\<close>.
  A value stored under the feature name \<open>f\<close> in layer \<open>m\<close> whose type is a proper
  subclass of \<^verbatim>\<open>torch.Tensor\<close> is an instance of \<^verbatim>\<open>torch.Tensor\<close>, yet the test
  rejects it; so \<open>f\<close> is in the set returned for \<^verbatim>\<open>plottable_features_only=True\<close>
  exactly when some other layer holds \<open>f\<close> with a value of type \<^verbatim>\<open>torch.Tensor\<close> itself.
\<close>

theorem exact_type_test_excludes_subclasses:
  assumes "DAList.lookup (generated_reports slf) m = Some fd"
    and "DAList.lookup fd f = Some v"
    and "issubclass (type_of v) torch_Tensor"
    and "type_of v \<noteq> torch_Tensor"
  shows "isinstance v torch_Tensor \<and>
         wanted True fd f = Inr False \<and>
         (\<exists>S. get_all_unique_feature_names slf True = Inr (S, slf) \<and>
              (f \<in> S \<longleftrightarrow>
                 (\<exists>m' fd' v'. m' \<noteq> m \<and> DAList.lookup (generated_reports slf) m' = Some fd' \<and>
                               DAList.lookup fd' f = Some v' \<and> type_of v' = torch_Tensor)))"
proof -
  let ?r = "generated_reports slf"
  have inst: "isinstance v torch_Tensor"
    using assms(3) by (simp add: isinstance_def)
  have test: "wanted True fd f = Inr False"
    using assms(2,4) by (simp add: wanted_def dict_getitem_def)
  have other: "(\<exists>m' fd' v'. DAList.lookup ?r m' = Some fd' \<and> DAList.lookup fd' f = Some v' \<and>
                   type_of v' = torch_Tensor)
               \<longleftrightarrow> (\<exists>m' fd' v'. m' \<noteq> m \<and> DAList.lookup ?r m' = Some fd' \<and>
                   DAList.lookup fd' f = Some v' \<and> type_of v' = torch_Tensor)"
  proof
    assume "\<exists>m' fd' v'. DAList.lookup ?r m' = Some fd' \<and> DAList.lookup fd' f = Some v' \<and>
              type_of v' = torch_Tensor"
    then obtain m' fd' v' where h: "DAList.lookup ?r m' = Some fd'" "DAList.lookup fd' f = Some v'"
        "type_of v' = torch_Tensor"
      by blast
    have "m' \<noteq> m"
    proof
      assume "m' = m"
      then have "fd' = fd" using h(1) assms(1) by simp
      then have "v' = v" using h(2) assms(2) by simp
      then show False using h(3) assms(4) by simp
    qed
    with h show "\<exists>m' fd' v'. m' \<noteq> m \<and> DAList.lookup ?r m' = Some fd' \<and>
                   DAList.lookup fd' f = Some v' \<and> type_of v' = torch_Tensor"
      by blast
  next
    assume "\<exists>m' fd' v'. m' \<noteq> m \<and> DAList.lookup ?r m' = Some fd' \<and>
                   DAList.lookup fd' f = Some v' \<and> type_of v' = torch_Tensor"
    then show "\<exists>m' fd' v'. DAList.lookup ?r m' = Some fd' \<and> DAList.lookup fd' f = Some v' \<and>
              type_of v' = torch_Tensor"
      by blast
  qed
  have "f \<in> gathered True ?r (set (dict_keys ?r)) \<longleftrightarrow>
          (\<exists>m' fd' v'. m' \<noteq> m \<and> DAList.lookup ?r m' = Some fd' \<and>
             DAList.lookup fd' f = Some v' \<and> type_of v' = torch_Tensor)"
    unfolding plottable_iff by (rule other)
  then show ?thesis
    using inst test by (simp add: get_all_unique_feature_names_result)
qed

theorem exact_type_test_excludes_subclasses_witness:
  "DAList.lookup (generated_reports (init example_report)) ''block2.conv'' = Some layer2 \<and>
   DAList.lookup layer2 ''weight'' = Some (PyVal torch_nn_Parameter 5) \<and>
   issubclass (type_of (PyVal torch_nn_Parameter (5::nat))) torch_Tensor \<and>
   type_of (PyVal torch_nn_Parameter (5::nat)) \<noteq> torch_Tensor \<and>
   isinstance (PyVal torch_nn_Parameter (5::nat)) torch_Tensor \<and>
   wanted True layer2 ''weight'' = Inr False \<and>
   (\<exists>S. get_all_unique_feature_names (init example_report) True = Inr (S, init example_report) \<and>
        ''weight'' \<notin> S)"
proof -
  let ?v = "PyVal torch_nn_Parameter (5::nat)"
  have h1: "DAList.lookup (generated_reports (init example_report)) ''block2.conv'' = Some layer2"
    by (simp add: init_def example_report_lookup)
  have h2: "DAList.lookup layer2 ''weight'' = Some ?v"
    by (simp add: layer2_lookup)
  have h3: "issubclass (type_of ?v) torch_Tensor"
    using parameter_is_proper_subclass by simp
  have h4: "type_of ?v \<noteq> torch_Tensor"
    using parameter_is_proper_subclass by simp
  have none: "\<not> (\<exists>m' fd' v'. m' \<noteq> ''block2.conv'' \<and>
                 DAList.lookup (generated_reports (init example_report)) m' = Some fd' \<and>
                 DAList.lookup fd' ''weight'' = Some v' \<and> type_of v' = torch_Tensor)"
    by (auto simp: init_def example_report_lookup layer1_lookup split: if_splits)
  show ?thesis
    using exact_type_test_excludes_subclasses [OF h1 h2 h3 h4] h1 h2 h3 h4 none
    by blast
qed

text \<open>
  C8. For every report, the set returned for \<^verbatim>\<open>plottable_features_only=True\<close> is a
  subset of the set returned for \<^verbatim>\<open>False\<close>; and a call without the argument is the
  call with \<^verbatim>\<open>True\<close>, the default.
\<close>

theorem plottable_subset_and_default:
  "(\<exists>S\<^sub>T S\<^sub>F. get_all_unique_feature_names slf True = Inr (S\<^sub>T, slf) \<and>
             get_all_unique_feature_names slf False = Inr (S\<^sub>F, slf) \<and> S\<^sub>T \<subseteq> S\<^sub>F) \<and>
   call_get_all_unique_feature_names slf None = call_get_all_unique_feature_names slf (Some True) \<and>
   call_get_all_unique_feature_names slf None = get_all_unique_feature_names slf True"
proof -
  have "gathered True (generated_reports slf) ms \<subseteq> gathered False (generated_reports slf) ms" for ms
    by (auto simp: gathered_def chosen_def)
  then show ?thesis
    by (simp add: get_all_unique_feature_names_result call_get_all_unique_feature_names_def)
qed

theorem plottable_subset_and_default_witness:
  "(\<exists>S\<^sub>T S\<^sub>F. get_all_unique_feature_names (init example_report) True = Inr (S\<^sub>T, init example_report) \<and>
             get_all_unique_feature_names (init example_report) False = Inr (S\<^sub>F, init example_report) \<and>
             S\<^sub>T \<subseteq> S\<^sub>F) \<and>
   call_get_all_unique_feature_names (init example_report) None =
     call_get_all_unique_feature_names (init example_report) (Some True) \<and>
   call_get_all_unique_feature_names (init example_report) None =
     get_all_unique_feature_names (init example_report) True"
  by (rule plottable_subset_and_default)

text \<open>
  C9. Neither accessor changes the instance: after a call of
  \<^verbatim>\<open>get_all_unique_module_fqns\<close> or of \<^verbatim>\<open>get_all_unique_feature_names\<close>, with either
  argument, the stored \<^verbatim>\<open>generated_reports\<close> is the dictionary it was before, with
  every layer key and every feature value.
\<close>

theorem accessors_leave_report_unchanged:
  "(\<exists>S slf'. get_all_unique_module_fqns slf = Inr (S, slf') \<and>
             generated_reports slf' = generated_reports slf) \<and>
   (\<exists>S slf'. get_all_unique_feature_names slf plottable_features_only = Inr (S, slf') \<and>
             generated_reports slf' = generated_reports slf)"
proof -
  obtain S slf' where r: "get_all_unique_feature_names slf plottable_features_only = Inr (S, slf')"
    by (simp add: get_all_unique_feature_names_result)
  have "slf' = slf"
    using r by (rule get_all_unique_feature_names_self)
  with r show ?thesis
    by (simp add: get_all_unique_module_fqns_def)
qed

theorem accessors_leave_report_unchanged_witness:
  "(\<exists>S slf'. get_all_unique_module_fqns (init example_report) = Inr (S, slf') \<and>
             generated_reports slf' = example_report) \<and>
   (\<exists>S slf'. get_all_unique_feature_names (init example_report) True = Inr (S, slf') \<and>
             generated_reports slf' = example_report)"
  using accessors_leave_report_unchanged [of "init example_report" True]
  by (simp only: init_def ModelReportVisualizer.simps)

end
